theory Spec2Isabelle
  imports Complex_Main "HOL-Library.AList"
begin

section \<open>JavaScript values\<close>

text \<open>
  The two source files are thin facades over a chain connection: they test arguments for
  truthiness and address shape, build call descriptors and hand them to a sender. The
  embedding therefore needs the JavaScript notions the code relies on: the value
  universe, truthiness, \<open>a || b\<close>, property reads, \<open>Object.assign\<close>, the relational
  operators on numbers, and identifier resolution (two methods of the staking helper
  read identifiers that no enclosing scope declares).
\<close>

text \<open>A JavaScript number: a finite value, NaN, or one of the two infinities.\<close>

datatype jsnum = Fin rat | NaN | PosInf | NegInf

text \<open>
  Values. \<open>JWeb3 n\<close> is an instance of the \<open>Web3\<close> class (the chain connection number
  \<open>n\<close>); \<open>JHost s\<close> is any other opaque object of the host or of a collaborator
  module, identified by a name.
\<close>

datatype jsval =
    Undefined
  | Null
  | JBool bool
  | JNum jsnum
  | JStr string
  | JArr "jsval list"
  | JObj "(string \<times> jsval) list"
  | JWeb3 nat
  | JHost string

text \<open>\<open>a < b\<close> on numbers: false as soon as one side is NaN.\<close>

fun js_lt :: "jsnum \<Rightarrow> jsnum \<Rightarrow> bool" where
  "js_lt (Fin x) (Fin y) = (x < y)"
| "js_lt (Fin x) PosInf = True"
| "js_lt (Fin x) NegInf = False"
| "js_lt NegInf (Fin y) = True"
| "js_lt NegInf PosInf = True"
| "js_lt PosInf b = False"
| "js_lt NegInf NegInf = False"
| "js_lt a NaN = False"
| "js_lt NaN b = False"

text \<open>\<open>a > b\<close> is \<open>b < a\<close>; \<open>a <= b\<close> is "not \<open>b < a\<close>", except that NaN makes it false.\<close>

definition js_gt :: "jsnum \<Rightarrow> jsnum \<Rightarrow> bool" where
  "js_gt a b = js_lt b a"

definition js_le :: "jsnum \<Rightarrow> jsnum \<Rightarrow> bool" where
  "js_le a b = (a \<noteq> NaN \<and> b \<noteq> NaN \<and> \<not> js_lt b a)"

text \<open>Truthiness (\<open>ToBoolean\<close>): what \<open>!x\<close> and \<open>x || y\<close> test.\<close>

fun truthy :: "jsval \<Rightarrow> bool" where
  "truthy Undefined = False"
| "truthy Null = False"
| "truthy (JBool b) = b"
| "truthy (JNum n) = (n \<noteq> Fin 0 \<and> n \<noteq> NaN)"
| "truthy (JStr s) = (s \<noteq> [])"
| "truthy (JArr xs) = True"
| "truthy (JObj kvs) = True"
| "truthy (JWeb3 n) = True"
| "truthy (JHost s) = True"

definition js_or :: "jsval \<Rightarrow> jsval \<Rightarrow> jsval" where
  "js_or a b = (if truthy a then a else b)"

definition nullish :: "jsval \<Rightarrow> bool" where
  "nullish v = (v = Undefined \<or> v = Null)"

text \<open>Decimal rendering of an array index, the property key of an element.\<close>

fun dec_str :: "nat \<Rightarrow> string" where
  "dec_str n = (if n < 10 then [char_of (48 + n)]
                else dec_str (n div 10) @ [char_of (48 + n mod 10)])"

declare dec_str.simps [simp del]

text \<open>
  The own enumerable properties of a value, in enumeration order: the entries of an
  object (a repeated key in the list counts once, its first entry), the indexed
  elements of an array, the indexed characters of a string. Numbers, booleans and the
  opaque objects contribute none.
\<close>

fun own_props :: "jsval \<Rightarrow> (string \<times> jsval) list" where
  "own_props (JObj kvs) = AList.clearjunk kvs"
| "own_props (JArr xs) = zip (map dec_str [0..<length xs]) xs"
| "own_props (JStr s) = zip (map dec_str [0..<length s]) (map (\<lambda>c. JStr [c]) s)"
| "own_props v = []"

definition has_own :: "jsval \<Rightarrow> string \<Rightarrow> bool" where
  "has_own v k = (k \<in> set (map fst (own_props v)))"

text \<open>
  A property read \<open>v.k\<close> on a value that is not \<open>undefined\<close> or \<open>null\<close>: the own
  property, the \<open>length\<close> of an array or string, and \<open>undefined\<close> otherwise. The code
  reads properties only of values it has tested truthy, or of \<open>this\<close>; the one read on
  an unchecked value (the receipt in \<open>deploy\<close>) is guarded by \<open>nullish\<close> in the model.
  The keys read are \<open>from\<close>, \<open>length\<close>, \<open>contractAddress\<close> and the instance fields,
  none of which the built-in prototypes define.
\<close>

definition lookup :: "jsval \<Rightarrow> string \<Rightarrow> jsval" where
  "lookup v k = (case map_of (own_props v) k of Some x \<Rightarrow> x | None \<Rightarrow> Undefined)"

fun get_prop :: "jsval \<Rightarrow> string \<Rightarrow> jsval" where
  "get_prop (JArr xs) k =
     (if k = ''length'' then JNum (Fin (of_nat (length xs))) else lookup (JArr xs) k)"
| "get_prop (JStr s) k =
     (if k = ''length'' then JNum (Fin (of_nat (length s))) else lookup (JStr s) k)"
| "get_prop v k = lookup v k"

text \<open>
  \<open>Object.assign(target, source)\<close>: for every own enumerable key of the source, in
  order, read the source's value and set it on the target (an existing key keeps its
  position, a new key is appended).
\<close>

definition Object_assign :: "jsval \<Rightarrow> jsval \<Rightarrow> jsval" where
  "Object_assign target source =
     (case target of
        JObj kvs \<Rightarrow>
          JObj (fold (\<lambda>k t. AList.update k (get_prop source k) t) (map fst (own_props source)) kvs)
      | _ \<Rightarrow> target)"

section \<open>Errors, descriptors and the trace of effects\<close>

text \<open>A template literal: literal text and interpolated values.\<close>

datatype part = Lit string | Val jsval

type_synonym message = "part list"

text \<open>
  Errors as values. \<open>TypeError\<close> and \<open>Error\<close> are the ones the code constructs itself
  (\<open>new TypeError(message)\<close>, \<open>Error(...)\<close>): its validation errors.
  \<open>RuntimeTypeError\<close> is the TypeError the language raises on a property read of
  \<open>undefined\<close> or on calling a non-function; \<open>ReferenceError x\<close> is raised by reading
  the undeclared identifier \<open>x\<close>. \<open>Rejected v\<close> is a failure reported by a
  collaborator (a revert, a transport error).
\<close>

datatype error =
    TypeError message
  | Error message
  | RuntimeTypeError string
  | ReferenceError string
  | Rejected jsval

text \<open>A contract handle: the connection, the ABI, the address and the options it is bound to.\<close>

record contract =
  c_web3 :: jsval
  c_abi :: jsval
  c_address :: jsval
  c_options :: jsval

text \<open>
  A transaction descriptor: \<open>contract.methods.m(args)\<close>, or
  \<open>contract.deploy({data, arguments})\<close>. Building one is local and total: nothing is
  encoded or sent until \<open>call\<close>, \<open>send\<close> or \<open>Utils.sendTransaction\<close>.
\<close>

datatype txobject =
    MethodTx contract string "jsval list"
  | DeployTx contract jsval "jsval list"

text \<open>
  What an operation does beyond returning: log lines and the two kinds of network
  round trip (a read \<open>call()\<close>, a submission with its options).
\<close>

datatype event =
    LoggerError message
  | ConsoleLog message
  | ConsoleLogError error
  | Called txobject
  | Sent txobject jsval

fun is_network :: "event \<Rightarrow> bool" where
  "is_network (Called tx) = True"
| "is_network (Sent tx opts) = True"
| "is_network ev = False"

definition network :: "event list \<Rightarrow> event list" where
  "network tr = filter is_network tr"

text \<open>
  The collaborators, none of which is defined in the two source files; they are
  parameters of every operation. \<open>isAddress\<close> is \<open>Web3.utils.isAddress\<close>;
  \<open>getBrandedToken\<close> is \<open>Contracts.getBrandedToken(web3, address)\<close>, \<open>None\<close> standing
  for a falsy result; \<open>getABI\<close> and \<open>getBIN\<close> are the \<open>AbiBinProvider\<close> lookups;
  \<open>call\<close> is the outcome of a read on the chain, \<open>sendTransaction\<close> that of
  \<open>Utils.sendTransaction(tx, txOptions)\<close> and \<open>send\<close> that of \<open>tx.send(txOptions)\<close>.
  The three network outcomes may depend on everything that happened before.
\<close>

record env =
  isAddress :: "jsval \<Rightarrow> bool"
  getBrandedToken :: "jsval \<Rightarrow> jsval \<Rightarrow> contract option"
  getABI :: "string \<Rightarrow> error + jsval"
  getBIN :: "string \<Rightarrow> error + jsval"
  call :: "event list \<Rightarrow> txobject \<Rightarrow> error + jsval"
  sendTransaction :: "event list \<Rightarrow> txobject \<Rightarrow> jsval \<Rightarrow> error + jsval"
  send :: "event list \<Rightarrow> txobject \<Rightarrow> jsval \<Rightarrow> error + jsval"

text \<open>\<open>web3 instanceof Web3\<close>.\<close>

fun instanceof_Web3 :: "jsval \<Rightarrow> bool" where
  "instanceof_Web3 (JWeb3 n) = True"
| "instanceof_Web3 v = False"

text \<open>
  \<open>web3.eth.Contract\<close>: the constructor of contract handles of a connection. Only a
  \<open>Web3\<close> instance has one; on \<open>undefined\<close> or \<open>null\<close> the read of \<open>eth\<close> raises, on any
  other value \<open>eth\<close> is \<open>undefined\<close> (or not an object holding a constructor) and the
  \<open>new\<close> expression raises.
\<close>

fun eth_Contract :: "jsval \<Rightarrow> error + jsval" where
  "eth_Contract (JWeb3 n) = Inr (JWeb3 n)"
| "eth_Contract Undefined = Inl (RuntimeTypeError ''Cannot read property 'eth' of undefined'')"
| "eth_Contract Null = Inl (RuntimeTypeError ''Cannot read property 'eth' of null'')"
| "eth_Contract v = Inl (RuntimeTypeError ''web3.eth.Contract is not a constructor'')"

definition new_Contract :: "jsval \<Rightarrow> jsval \<Rightarrow> jsval \<Rightarrow> jsval \<Rightarrow> contract" where
  "new_Contract conn abi addr opts =
     \<lparr>c_web3 = conn, c_abi = abi, c_address = addr, c_options = opts\<rparr>"

section \<open>BrandedToken\<close>

record brandedtoken =
  bt_web3 :: jsval
  bt_address :: jsval
  bt_contract :: contract

type_synonym 'a outcome = "(error + 'a) \<times> event list"

text \<open>The constructor: three checks, then the three fields.\<close>

definition BrandedToken_constructor ::
  "env \<Rightarrow> jsval \<Rightarrow> jsval \<Rightarrow> event list \<Rightarrow> brandedtoken outcome" where
  "BrandedToken_constructor env web3 address tr =
     (if \<not> instanceof_Web3 web3 then
        (let message = [Lit ''Mandatory Parameter 'web3' is missing or invalid'']
         in (Inl (TypeError message), tr @ [LoggerError message]))
      else if \<not> isAddress env address then
        (let message = [Lit ''Mandatory Parameter 'address' is missing or invalid: '', Val address]
         in (Inl (TypeError message), tr @ [LoggerError message]))
      else
        (case getBrandedToken env web3 address of
           None \<Rightarrow>
             (let message = [Lit ''Could not load branded token contract for: '', Val address]
              in (Inl (TypeError message), tr @ [LoggerError message]))
         | Some c \<Rightarrow>
             (Inr \<lparr>bt_web3 = web3, bt_address = address, bt_contract = c\<rparr>, tr)))"

text \<open>
  \<open>deployRawTx\<close>. The two conversion parameters are numbers, as their documentation
  says (\<open>@param {number}\<close>); the other arguments are arbitrary values.
  \<open>Contracts.getBrandedToken(web3)\<close> is called without an address; a falsy result makes
  \<open>contract.deploy\<close> raise.
\<close>

definition deployRawTx ::
  "env \<Rightarrow> jsval \<Rightarrow> jsval \<Rightarrow> jsval \<Rightarrow> jsval \<Rightarrow> jsval \<Rightarrow> jsnum \<Rightarrow> jsnum \<Rightarrow> jsval
     \<Rightarrow> event list \<Rightarrow> txobject outcome" where
  "deployRawTx env web3 valueToken symbol name decimals conversionRate
       conversionRateDecimals organization tr =
     (if \<not> instanceof_Web3 web3 then
        (let message = [Lit ''Mandatory Parameter 'web3' is missing or invalid: '', Val web3]
         in (Inl (TypeError message), tr @ [LoggerError message]))
      else if \<not> isAddress env valueToken then
        (let message = [Lit ''Invalid valueToken address: '', Val valueToken, Lit ''.'']
         in (Inl (TypeError message), tr @ [LoggerError message]))
      else if \<not> isAddress env organization then
        (let message = [Lit ''Invalid organization address: '', Val organization, Lit ''.'']
         in (Inl (TypeError message), tr @ [LoggerError message]))
      else if \<not> js_gt conversionRate (Fin 0) then
        (let message = [Lit ''Invalid conversion rate: '', Val (JNum conversionRate),
                        Lit ''. It should be greater than zero'']
         in (Inl (TypeError message), tr @ [LoggerError message]))
      else if \<not> js_le conversionRateDecimals (Fin 5) then
        (let message = [Lit ''Invalid conversion rate decimal: '',
                        Val (JNum conversionRateDecimals), Lit ''. It should be less than 5'']
         in (Inl (TypeError message), tr @ [LoggerError message]))
      else
        (case getBIN env ''BrandedToken'' of
           Inl e \<Rightarrow> (Inl e, tr)
         | Inr bin \<Rightarrow>
             (let args = [valueToken, symbol, name, decimals, JNum conversionRate,
                          JNum conversionRateDecimals, organization]
              in case getBrandedToken env web3 Undefined of
                   None \<Rightarrow>
                     (Inl (RuntimeTypeError ''Cannot read property 'deploy' of undefined''), tr)
                 | Some c \<Rightarrow> (Inr (DeployTx c bin args), tr))))"

text \<open>
  \<open>deploy\<close>: the options are checked first, then the raw transaction is built (a throw
  there rejects the promise of the async function), submitted, and a client is
  constructed on the address of the receipt.
\<close>

definition deploy ::
  "env \<Rightarrow> jsval \<Rightarrow> jsval \<Rightarrow> jsval \<Rightarrow> jsval \<Rightarrow> jsval \<Rightarrow> jsnum \<Rightarrow> jsnum \<Rightarrow> jsval
     \<Rightarrow> jsval \<Rightarrow> event list \<Rightarrow> brandedtoken outcome" where
  "deploy env web3 valueToken symbol name decimals conversionRate
       conversionRateDecimals organization txOptions tr =
     (if \<not> truthy txOptions then
        (Inl (TypeError [Lit ''Invalid transaction options.'']),
         tr @ [LoggerError [Lit ''Invalid transaction options: '', Val txOptions]])
      else if \<not> isAddress env (get_prop txOptions ''from'') then
        (let message = [Lit ''Invalid from address: '', Val (get_prop txOptions ''from''), Lit ''.'']
         in (Inl (TypeError message), tr @ [LoggerError message]))
      else
        (case deployRawTx env web3 valueToken symbol name decimals conversionRate
                conversionRateDecimals organization tr of
           (Inl e, tr1) \<Rightarrow> (Inl e, tr1)
         | (Inr tx, tr1) \<Rightarrow>
             (case sendTransaction env tr1 tx txOptions of
                Inl e \<Rightarrow> (Inl e, tr1 @ [Sent tx txOptions])
              | Inr txReceipt \<Rightarrow>
                  (if nullish txReceipt then
                     (Inl (RuntimeTypeError ''Cannot read property 'contractAddress' of undefined''),
                      tr1 @ [Sent tx txOptions])
                   else BrandedToken_constructor env web3 (get_prop txReceipt ''contractAddress'')
                          (tr1 @ [Sent tx txOptions])))))"

text \<open>The two conversion reads and \<open>isUnrestricted\<close>: build the call, perform it.\<close>

definition convertToBrandedTokens ::
  "env \<Rightarrow> brandedtoken \<Rightarrow> jsval \<Rightarrow> event list \<Rightarrow> jsval outcome" where
  "convertToBrandedTokens env this valueTokens tr =
     (let tx = MethodTx (bt_contract this) ''convertToBrandedTokens'' [valueTokens]
      in (call env tr tx, tr @ [Called tx]))"

definition convertToValueTokens ::
  "env \<Rightarrow> brandedtoken \<Rightarrow> jsval \<Rightarrow> event list \<Rightarrow> jsval outcome" where
  "convertToValueTokens env this brandedTokens tr =
     (let tx = MethodTx (bt_contract this) ''convertToValueTokens'' [brandedTokens]
      in (call env tr tx, tr @ [Called tx]))"

definition isUnrestricted ::
  "env \<Rightarrow> brandedtoken \<Rightarrow> jsval \<Rightarrow> event list \<Rightarrow> jsval outcome" where
  "isUnrestricted env this address tr =
     (let tx = MethodTx (bt_contract this) ''isUnrestricted'' [address]
      in (call env tr tx, tr @ [Called tx]))"

text \<open>\<open>requestStakeRawTx\<close>: no check at all, the descriptor is returned resolved.\<close>

definition requestStakeRawTx ::
  "brandedtoken \<Rightarrow> jsval \<Rightarrow> jsval \<Rightarrow> event list \<Rightarrow> txobject outcome" where
  "requestStakeRawTx this stakeAmount mintAmount tr =
     (Inr (MethodTx (bt_contract this) ''requestStake'' [stakeAmount, mintAmount]), tr)"

definition requestStake ::
  "env \<Rightarrow> brandedtoken \<Rightarrow> jsval \<Rightarrow> jsval \<Rightarrow> event list \<Rightarrow> jsval outcome" where
  "requestStake env this stakeAmount txOptions tr =
     (if \<not> truthy txOptions then
        (let message = [Lit ''Invalid transaction options: '', Val txOptions, Lit ''.'']
         in (Inl (TypeError message), tr @ [LoggerError message]))
      else if \<not> isAddress env (get_prop txOptions ''from'') then
        (let message = [Lit ''Invalid from address '', Val (get_prop txOptions ''from''),
                        Lit '' in transaction options.'']
         in (Inl (TypeError message), tr @ [LoggerError message]))
      else
        (case convertToBrandedTokens env this stakeAmount tr of
           (Inl e, tr1) \<Rightarrow> (Inl e, tr1)
         | (Inr mintedAmount, tr1) \<Rightarrow>
             (case requestStakeRawTx this stakeAmount mintedAmount tr1 of
                (Inl e, tr2) \<Rightarrow> (Inl e, tr2)
              | (Inr tx, tr2) \<Rightarrow>
                  (sendTransaction env tr2 tx txOptions, tr2 @ [Sent tx txOptions]))))"

definition acceptStakeRequestRawTx ::
  "brandedtoken \<Rightarrow> jsval \<Rightarrow> jsval \<Rightarrow> jsval \<Rightarrow> jsval \<Rightarrow> event list \<Rightarrow> txobject outcome" where
  "acceptStakeRequestRawTx this stakeRequestHash r s v tr =
     (if \<not> truthy stakeRequestHash then
        (let message = [Lit ''Invalid stakeRequestHash: '', Val stakeRequestHash, Lit ''.'']
         in (Inl (TypeError message), tr @ [LoggerError message]))
      else if \<not> truthy r then
        (let message = [Lit ''Invalid r of signature: '', Val r, Lit ''.'']
         in (Inl (TypeError message), tr @ [LoggerError message]))
      else if \<not> truthy s then
        (let message = [Lit ''Invalid s of signature: '', Val s, Lit ''.'']
         in (Inl (TypeError message), tr @ [LoggerError message]))
      else if \<not> truthy v then
        (let message = [Lit ''Invalid v of signature: '', Val v, Lit ''.'']
         in (Inl (TypeError message), tr @ [LoggerError message]))
      else
        (Inr (MethodTx (bt_contract this) ''acceptStakeRequest'' [stakeRequestHash, r, s, v]),
         tr))"

definition acceptStakeRequest ::
  "env \<Rightarrow> brandedtoken \<Rightarrow> jsval \<Rightarrow> jsval \<Rightarrow> jsval \<Rightarrow> jsval \<Rightarrow> jsval \<Rightarrow> event list
     \<Rightarrow> jsval outcome" where
  "acceptStakeRequest env this stakeRequestHash r s v txOptions tr =
     (if \<not> truthy txOptions then
        (let message = [Lit ''Invalid transaction options: '', Val txOptions, Lit ''.'']
         in (Inl (TypeError message), tr @ [LoggerError message]))
      else if \<not> isAddress env (get_prop txOptions ''from'') then
        (let message = [Lit ''Invalid from address '', Val (get_prop txOptions ''from''),
                        Lit '' in transaction options.'']
         in (Inl (TypeError message), tr @ [LoggerError message]))
      else
        (case acceptStakeRequestRawTx this stakeRequestHash r s v tr of
           (Inl e, tr1) \<Rightarrow> (Inl e, tr1)
         | (Inr tx, tr1) \<Rightarrow>
             (sendTransaction env tr1 tx txOptions, tr1 @ [Sent tx txOptions])))"

text \<open>\<open>liftRestrictionRawTx\<close>: \<open>!addresses || addresses.length === 0\<close>, a strict comparison.\<close>

definition liftRestrictionRawTx ::
  "brandedtoken \<Rightarrow> jsval \<Rightarrow> event list \<Rightarrow> txobject outcome" where
  "liftRestrictionRawTx this addresses tr =
     (if \<not> truthy addresses \<or> get_prop addresses ''length'' = JNum (Fin 0) then
        (let message = [Lit ''At least one addresses must be defined : '', Val addresses]
         in (Inl (TypeError message), tr @ [LoggerError message]))
      else (Inr (MethodTx (bt_contract this) ''liftRestriction'' [addresses]), tr))"

definition liftRestriction ::
  "env \<Rightarrow> brandedtoken \<Rightarrow> jsval \<Rightarrow> jsval \<Rightarrow> event list \<Rightarrow> jsval outcome" where
  "liftRestriction env this addresses txOptions tr =
     (if \<not> truthy txOptions then
        (let message = [Lit ''Invalid transaction options: '', Val txOptions, Lit ''.'']
         in (Inl (TypeError message), tr @ [LoggerError message]))
      else if \<not> isAddress env (get_prop txOptions ''from'') then
        (let message = [Lit ''Invalid from address '', Val (get_prop txOptions ''from''),
                        Lit '' in transaction options.'']
         in (Inl (TypeError message), tr @ [LoggerError message]))
      else
        (case liftRestrictionRawTx this addresses tr of
           (Inl e, tr1) \<Rightarrow> (Inl e, tr1)
         | (Inr tx, tr1) \<Rightarrow>
             (sendTransaction env tr1 tx txOptions, tr1 @ [Sent tx txOptions])))"

definition rejectStakeRequestRawTx ::
  "brandedtoken \<Rightarrow> jsval \<Rightarrow> event list \<Rightarrow> txobject outcome" where
  "rejectStakeRequestRawTx this stakeRequestHash tr =
     (if \<not> truthy stakeRequestHash then
        (let message = [Lit ''Invalid stakeRequestHash: '', Val stakeRequestHash, Lit ''.'']
         in (Inl (TypeError message), tr @ [LoggerError message]))
      else (Inr (MethodTx (bt_contract this) ''rejectStakeRequest'' [stakeRequestHash]), tr))"

text \<open>\<open>rejectStakeRequest\<close> and \<open>redeem\<close> do not log a bad \<open>from\<close> address.\<close>

definition rejectStakeRequest ::
  "env \<Rightarrow> brandedtoken \<Rightarrow> jsval \<Rightarrow> jsval \<Rightarrow> event list \<Rightarrow> jsval outcome" where
  "rejectStakeRequest env this stakeRequestHash txOptions tr =
     (if \<not> truthy txOptions then
        (let message = [Lit ''Invalid transaction options: '', Val txOptions, Lit ''.'']
         in (Inl (TypeError message), tr @ [LoggerError message]))
      else if \<not> isAddress env (get_prop txOptions ''from'') then
        (Inl (TypeError [Lit ''Invalid from address '', Val (get_prop txOptions ''from''),
                         Lit '' in transaction options.'']), tr)
      else
        (case rejectStakeRequestRawTx this stakeRequestHash tr of
           (Inl e, tr1) \<Rightarrow> (Inl e, tr1)
         | (Inr tx, tr1) \<Rightarrow>
             (sendTransaction env tr1 tx txOptions, tr1 @ [Sent tx txOptions])))"

definition redeemRawTx ::
  "brandedtoken \<Rightarrow> jsval \<Rightarrow> event list \<Rightarrow> txobject outcome" where
  "redeemRawTx this amount tr =
     (if \<not> truthy amount then
        (Inl (TypeError [Lit ''Invalid redeemAmount: '', Val amount, Lit ''.'']), tr)
      else (Inr (MethodTx (bt_contract this) ''redeem'' [amount]), tr))"

definition redeem ::
  "env \<Rightarrow> brandedtoken \<Rightarrow> jsval \<Rightarrow> jsval \<Rightarrow> event list \<Rightarrow> jsval outcome" where
  "redeem env this amount txOptions tr =
     (if \<not> truthy txOptions then
        (Inl (TypeError [Lit ''Invalid transaction options: '', Val txOptions, Lit ''.'']), tr)
      else if \<not> isAddress env (get_prop txOptions ''from'') then
        (Inl (TypeError [Lit ''Invalid from address '', Val (get_prop txOptions ''from''),
                         Lit '' in transaction options.'']), tr)
      else
        (case redeemRawTx this amount tr of
           (Inl e, tr1) \<Rightarrow> (Inl e, tr1)
         | (Inr txObject, tr1) \<Rightarrow>
             (sendTransaction env tr1 txObject txOptions, tr1 @ [Sent txObject txOptions])))"

section \<open>Identifier resolution\<close>

text \<open>
  Both files are strict-mode modules. An identifier is looked up in the scope of the
  function that reads it (its parameters and the locals declared so far), then among
  the module's own top-level declarations, then among the globals of the host; a name
  found nowhere raises a ReferenceError. The staking helper's module declares three
  names at top level.
\<close>

type_synonym scope = "(string \<times> jsval) list"

definition staker_module_scope :: scope where
  "staker_module_scope =
     [(''AbiBinProvider'', JHost ''class AbiBinProvider''),
      (''gatewayComposerContractName'', JStr ''GatewayComposer''),
      (''brandedTokenContractName'', JStr ''BrandedToken'')]"

definition host_globals :: scope where
  "host_globals =
     [(''console'', JHost ''console''), (''Promise'', JHost ''Promise''),
      (''Object'', JHost ''Object''), (''JSON'', JHost ''JSON''),
      (''Error'', JHost ''Error''), (''require'', JHost ''require''),
      (''module'', JHost ''module'')]"

definition resolve :: "scope \<Rightarrow> string \<Rightarrow> error + jsval" where
  "resolve locals x =
     (case map_of (locals @ staker_module_scope @ host_globals) x of
        Some v \<Rightarrow> Inr v
      | None \<Rightarrow> Inl (ReferenceError x))"

section \<open>Staker (the GatewayComposer staking helper)\<close>

text \<open>
  An instance is the object the constructor fills: six properties, none of them named
  \<open>web3\<close>. Methods take the instance as \<open>this\<close>.
\<close>

definition Staker_constructor :: "jsval \<Rightarrow> jsval \<Rightarrow> jsval \<Rightarrow> jsval \<Rightarrow> jsval \<Rightarrow> jsval" where
  "Staker_constructor originWeb3 valueToken brandedToken gatewayComposer txOptions =
     JObj [(''originWeb3'', originWeb3),
           (''valueToken'', valueToken),
           (''gatewayComposer'', gatewayComposer),
           (''brandedToken'', brandedToken),
           (''txOptions'', txOptions),
           (''abiBinProvider'', JHost ''AbiBinProvider'')]"

text \<open>\<open>provider.getABI(name)\<close>: the registry lookup when the receiver is the provider.\<close>

definition provider_getABI :: "env \<Rightarrow> jsval \<Rightarrow> string \<Rightarrow> error + jsval" where
  "provider_getABI env provider name =
     (if provider = JHost ''AbiBinProvider'' then getABI env name
      else Inl (RuntimeTypeError ''abiBinProvider.getABI is not a function''))"

text \<open>
  \<open>approveForValueToken(valueTokenAbi, stakeAmountInWei)\<close>. The ABI is an array. The
  body reads \<open>originWeb3\<close> and \<open>txOptions\<close>, which are neither parameters nor locals. It
  returns the \<open>approve\<close> descriptor; it does not send it.
\<close>

definition Staker_approveForValueToken ::
  "env \<Rightarrow> jsval \<Rightarrow> jsval list \<Rightarrow> jsval \<Rightarrow> event list \<Rightarrow> txobject outcome" where
  "Staker_approveForValueToken env this valueTokenAbi stakeAmountInWei tr =
     (let oThis = this;
          locals = [(''valueTokenAbi'', JArr valueTokenAbi),
                    (''stakeAmountInWei'', stakeAmountInWei), (''oThis'', oThis)]
      in case resolve locals ''originWeb3'' of
           Inl e \<Rightarrow> (Inl e, tr)
         | Inr originWeb3 \<Rightarrow>
             (let web3 = js_or originWeb3 (get_prop oThis ''originWeb3'')
              in if length valueTokenAbi = 0 then
                   (Inl (Error [Lit ''Value token abi is not provided'']), tr)
                 else
                   (case eth_Contract web3 of
                      Inl e \<Rightarrow> (Inl e, tr)
                    | Inr conn \<Rightarrow>
                        (case resolve locals ''txOptions'' of
                           Inl e \<Rightarrow> (Inl e, tr)
                         | Inr txOptions \<Rightarrow>
                             (let contract = new_Contract conn (JArr valueTokenAbi)
                                               (get_prop oThis ''valueToken'') txOptions
                              in (Inr (MethodTx contract ''approve''
                                         [get_prop oThis ''gatewayComposer'', stakeAmountInWei]),
                                  tr))))))"

text \<open>
  \<open>_requestStakeRawTx\<close>: the default options, overwritten by the caller's when these are
  truthy, become the options of the composer contract handle.
\<close>

definition Staker_requestStakeRawTx ::
  "env \<Rightarrow> jsval \<Rightarrow> jsval \<Rightarrow> jsval \<Rightarrow> jsval \<Rightarrow> jsval \<Rightarrow> jsval \<Rightarrow> jsval \<Rightarrow> jsval \<Rightarrow> jsval
     \<Rightarrow> jsval \<Rightarrow> jsval \<Rightarrow> event list \<Rightarrow> txobject outcome" where
  "Staker_requestStakeRawTx env this owner stakeVTAmountInWei mintBTAmountInWei gatewayAddress
       beneficiary gasPrice gasLimit nonce originWeb3 txOptions tr =
     (let oThis = this;
          web3 = js_or originWeb3 (get_prop oThis ''originWeb3'');
          abiBinProvider = get_prop oThis ''abiBinProvider''
      in case provider_getABI env abiBinProvider ''GatewayComposer'' of
           Inl e \<Rightarrow> (Inl e, tr)
         | Inr abi \<Rightarrow>
             (let defaultOptions = JObj [(''from'', owner),
                                         (''to'', get_prop oThis ''gatewayComposer''),
                                         (''gas'', JStr ''8000000'')];
                  defaultOptions = (if truthy txOptions
                                    then Object_assign defaultOptions txOptions
                                    else defaultOptions);
                  txOptions = defaultOptions
              in case eth_Contract web3 of
                   Inl e \<Rightarrow> (Inl e, tr)
                 | Inr conn \<Rightarrow>
                     (let contract = new_Contract conn abi (get_prop oThis ''gatewayComposer'')
                                       txOptions;
                          tr1 = tr @ [ConsoleLog
                                  [Lit ''Constructed txObject for GatewayComposer.requestStake.'']];
                          txObject = MethodTx contract ''requestStake''
                                       [stakeVTAmountInWei, mintBTAmountInWei, gatewayAddress,
                                        beneficiary, gasPrice, gasLimit, nonce]
                      in (Inr txObject, tr1))))"

text \<open>
  \<open>requestStake\<close>: the raw descriptor is sent with the options the caller passed (the
  merge above happened on the callee's own parameter). Of the three observers only the
  one on \<open>error\<close> names an event the submission emits; it logs the error.
\<close>

definition Staker_requestStake ::
  "env \<Rightarrow> jsval \<Rightarrow> jsval \<Rightarrow> jsval \<Rightarrow> jsval \<Rightarrow> jsval \<Rightarrow> jsval \<Rightarrow> jsval \<Rightarrow> jsval \<Rightarrow> jsval
     \<Rightarrow> jsval \<Rightarrow> jsval \<Rightarrow> event list \<Rightarrow> jsval outcome" where
  "Staker_requestStake env this owner stakeVTAmountInWei mintBTAmountInWei gatewayAddress
       gasPrice gasLimit beneficiary stakerGatewayNonce originWeb3 txOptions tr =
     (let oThis = this
      in case Staker_requestStakeRawTx env oThis owner stakeVTAmountInWei mintBTAmountInWei
                gatewayAddress beneficiary gasPrice gasLimit stakerGatewayNonce originWeb3
                txOptions tr of
           (Inl e, tr1) \<Rightarrow> (Inl e, tr1)
         | (Inr txObject, tr1) \<Rightarrow>
             (case send env tr1 txObject txOptions of
                Inl err \<Rightarrow> (Inl err, tr1 @ [Sent txObject txOptions, ConsoleLogError err])
              | Inr receipt \<Rightarrow> (Inr receipt, tr1 @ [Sent txObject txOptions])))"

text \<open>
  \<open>stake\<close>: unlike every other method it has no \<open>const oThis = this\<close>; its body reads
  \<open>oThis\<close> all the same, first of all in the approval statement.
\<close>

definition Staker_stake ::
  "env \<Rightarrow> jsval \<Rightarrow> jsval list \<Rightarrow> jsval \<Rightarrow> jsval \<Rightarrow> jsval \<Rightarrow> jsval \<Rightarrow> jsval \<Rightarrow> jsval \<Rightarrow> jsval
     \<Rightarrow> jsval \<Rightarrow> event list \<Rightarrow> jsval outcome" where
  "Staker_stake env this valueTokenAbi owner stakeVTAmountInWei mintBTAmountInWei gatewayAddress
       gasPrice gasLimit beneficiary stakerGatewayNonce tr =
     (let locals = [(''valueTokenAbi'', JArr valueTokenAbi), (''owner'', owner),
                    (''stakeVTAmountInWei'', stakeVTAmountInWei),
                    (''mintBTAmountInWei'', mintBTAmountInWei),
                    (''gatewayAddress'', gatewayAddress), (''gasPrice'', gasPrice),
                    (''gasLimit'', gasLimit), (''beneficiary'', beneficiary),
                    (''stakerGatewayNonce'', stakerGatewayNonce)]
      in case resolve locals ''oThis'' of
           Inl e \<Rightarrow> (Inl e, tr)
         | Inr oThis \<Rightarrow>
             (case Staker_approveForValueToken env oThis valueTokenAbi stakeVTAmountInWei tr of
                (Inl e, tr1) \<Rightarrow> (Inl e, tr1)
              | (Inr approval, tr1) \<Rightarrow>
                  (case Staker_requestStake env oThis owner stakeVTAmountInWei mintBTAmountInWei
                          gatewayAddress gasPrice gasLimit beneficiary stakerGatewayNonce
                          (get_prop oThis ''originWeb3'') (get_prop oThis ''txOptions'') tr1 of
                     (Inl e, tr2) \<Rightarrow> (Inl e, tr2)
                   | (Inr receipt, tr2) \<Rightarrow> (Inr Undefined, tr2))))"

text \<open>\<open>convertToBTToken\<close>: connection and address default to the instance's.\<close>

definition Staker_convertToBTToken ::
  "env \<Rightarrow> jsval \<Rightarrow> jsval \<Rightarrow> jsval \<Rightarrow> jsval \<Rightarrow> jsval \<Rightarrow> event list \<Rightarrow> jsval outcome" where
  "Staker_convertToBTToken env this vtAmountInWei brandedTokenContractAddress originWeb3
       txOptions tr =
     (let oThis = this;
          web3 = js_or originWeb3 (get_prop oThis ''originWeb3'');
          brandedToken = js_or brandedTokenContractAddress (get_prop oThis ''brandedToken'')
      in case provider_getABI env (get_prop oThis ''abiBinProvider'') ''BrandedToken'' of
           Inl e \<Rightarrow> (Inl e, tr)
         | Inr abi \<Rightarrow>
             (case eth_Contract web3 of
                Inl e \<Rightarrow> (Inl e, tr)
              | Inr conn \<Rightarrow>
                  (let contract = new_Contract conn abi brandedToken txOptions;
                       tr1 = tr @ [ConsoleLog
                               [Lit ''Getting Branded tokens equivalent to Value tokens'']];
                       tx = MethodTx contract ''convertToBrandedTokens'' [vtAmountInWei]
                   in (call env tr1 tx, tr1 @ [Called tx]))))"

text \<open>The three lookups: here the connection defaults to \<open>oThis.web3\<close>.\<close>

definition Staker_getStakeRequestHashForStakerRawTx ::
  "env \<Rightarrow> jsval \<Rightarrow> jsval \<Rightarrow> jsval \<Rightarrow> jsval \<Rightarrow> event list \<Rightarrow> jsval outcome" where
  "Staker_getStakeRequestHashForStakerRawTx env this staker originWeb3 txOptions tr =
     (let oThis = this;
          web3 = js_or originWeb3 (get_prop oThis ''web3'')
      in case provider_getABI env (get_prop oThis ''abiBinProvider'') ''BrandedToken'' of
           Inl e \<Rightarrow> (Inl e, tr)
         | Inr abi \<Rightarrow>
             (case eth_Contract web3 of
                Inl e \<Rightarrow> (Inl e, tr)
              | Inr conn \<Rightarrow>
                  (let contract = new_Contract conn abi (get_prop oThis ''brandedToken'') txOptions;
                       tx = MethodTx contract ''stakeRequestHashes'' [staker]
                   in (call env tr tx, tr @ [Called tx]))))"

definition Staker_getStakeRequestRawTx ::
  "env \<Rightarrow> jsval \<Rightarrow> jsval \<Rightarrow> jsval \<Rightarrow> jsval \<Rightarrow> event list \<Rightarrow> jsval outcome" where
  "Staker_getStakeRequestRawTx env this stakeRequestHash originWeb3 txOptions tr =
     (let oThis = this;
          web3 = js_or originWeb3 (get_prop oThis ''web3'')
      in case provider_getABI env (get_prop oThis ''abiBinProvider'') ''BrandedToken'' of
           Inl e \<Rightarrow> (Inl e, tr)
         | Inr abi \<Rightarrow>
             (case eth_Contract web3 of
                Inl e \<Rightarrow> (Inl e, tr)
              | Inr conn \<Rightarrow>
                  (let contract = new_Contract conn abi (get_prop oThis ''brandedToken'') txOptions;
                       tx = MethodTx contract ''stakeRequests'' [stakeRequestHash]
                   in (call env tr tx, tr @ [Called tx]))))"

definition Staker_getGCStakeRequestRawTx ::
  "env \<Rightarrow> jsval \<Rightarrow> jsval \<Rightarrow> jsval \<Rightarrow> jsval \<Rightarrow> event list \<Rightarrow> jsval outcome" where
  "Staker_getGCStakeRequestRawTx env this stakeRequestHash originWeb3 txOptions tr =
     (let oThis = this;
          web3 = js_or originWeb3 (get_prop oThis ''web3'')
      in case provider_getABI env (get_prop oThis ''abiBinProvider'') ''GatewayComposer'' of
           Inl e \<Rightarrow> (Inl e, tr)
         | Inr abi \<Rightarrow>
             (case eth_Contract web3 of
                Inl e \<Rightarrow> (Inl e, tr)
              | Inr conn \<Rightarrow>
                  (let contract = new_Contract conn abi (get_prop oThis ''gatewayComposer'')
                                    txOptions;
                       tx = MethodTx contract ''stakeRequests'' [stakeRequestHash]
                   in (call env tr tx, tr @ [Called tx]))))"

section \<open>A concrete environment\<close>

text \<open>
  One address counts as well formed, the registry knows the contract on every
  connection, every read answers \<open>35\<close> and every submission resolves with a receipt.
  The concrete runs below use it.
\<close>

definition example_address :: jsval where
  "example_address = JStr ''0x00000000000000000000000000000000000000a1''"

definition example_contract :: contract where
  "example_contract =
     new_Contract (JWeb3 0) (JArr [JHost ''BrandedToken ABI'']) example_address Undefined"

definition example_env :: env where
  "example_env =
     \<lparr>isAddress = (\<lambda>v. v = example_address),
      getBrandedToken =
        (\<lambda>w a. if instanceof_Web3 w
                then Some (new_Contract w (JArr [JHost ''BrandedToken ABI'']) a Undefined)
                else None),
      getABI = (\<lambda>n. Inr (JArr [JHost n])),
      getBIN = (\<lambda>n. Inr (JStr ''0x6080'')),
      call = (\<lambda>tr tx. Inr (JStr ''35'')),
      sendTransaction = (\<lambda>tr tx opts. Inr (JObj [(''contractAddress'', example_address)])),
      send = (\<lambda>tr tx opts. Inr (JObj [(''status'', JBool True)]))\<rparr>"

definition example_token :: brandedtoken where
  "example_token =
     \<lparr>bt_web3 = JWeb3 0, bt_address = example_address, bt_contract = example_contract\<rparr>"

definition example_options :: jsval where
  "example_options = JObj [(''from'', example_address)]"

definition example_staker :: jsval where
  "example_staker =
     Staker_constructor (JWeb3 0) example_address example_address example_address
       example_options"

section \<open>Basic facts\<close>

lemma network_append: "network (a @ b) = network a @ network b"
  by (simp add: network_def)

lemma network_log [simp]: "network (tr @ [LoggerError m]) = network tr"
  by (simp add: network_def)

lemma map_of_fold_update:
  "map_of (fold (\<lambda>k t. AList.update k (f k) t) ks al) k =
     (if k \<in> set ks then Some (f k) else map_of al k)"
  by (induction ks arbitrary: al) (auto simp: update_conv')

lemma lookup_JObj:
  "lookup (JObj kvs) k = (case map_of kvs k of Some x \<Rightarrow> x | None \<Rightarrow> Undefined)"
  by (simp add: lookup_def map_of_clearjunk)

lemma get_prop_Object_assign:
  "get_prop (Object_assign (JObj kvs) source) k =
     (if has_own source k then get_prop source k else get_prop (JObj kvs) k)"
  by (simp add: Object_assign_def lookup_JObj map_of_fold_update has_own_def)

section \<open>BrandedToken: the stake request\<close>

text \<open>
  Claim C1. With truthy options whose \<open>from\<close> is a well-formed address,
  \<open>requestStake(stakeAmount, txOptions)\<close> first performs the read
  \<open>convertToBrandedTokens(stakeAmount)\<close>, on exactly the amount it was given. If the read
  fails, nothing is submitted and the failure is the result. If it answers
  \<open>mintAmount\<close>, the one descriptor submitted is the two-argument call
  \<open>requestStake(stakeAmount, mintAmount)\<close>, with the caller's options: the second argument
  is the value the read returned, never one the caller supplied.
\<close>

theorem requestStake_reads_then_submits:
  assumes "truthy txOptions" and "isAddress env (get_prop txOptions ''from'')"
  shows "requestStake env this stakeAmount txOptions tr =
     (let rd = MethodTx (bt_contract this) ''convertToBrandedTokens'' [stakeAmount]
      in case call env tr rd of
           Inl e \<Rightarrow> (Inl e, tr @ [Called rd])
         | Inr mintAmount \<Rightarrow>
             (let tx = MethodTx (bt_contract this) ''requestStake'' [stakeAmount, mintAmount]
              in (sendTransaction env (tr @ [Called rd]) tx txOptions,
                  tr @ [Called rd, Sent tx txOptions])))"
  using assms
  by (simp add: requestStake_def convertToBrandedTokens_def requestStakeRawTx_def Let_def
           split: sum.splits)

theorem requestStake_reads_then_submits_witness:
  "requestStake example_env example_token (JStr ''10'') example_options [] =
     (Inr (JObj [(''contractAddress'', example_address)]),
      [Called (MethodTx example_contract ''convertToBrandedTokens'' [JStr ''10'']),
       Sent (MethodTx example_contract ''requestStake'' [JStr ''10'', JStr ''35''])
         example_options])"
  using requestStake_reads_then_submits
          [of example_options example_env example_token "JStr ''10''" "[]"]
  by (simp add: example_env_def example_options_def example_token_def lookup_def)

section \<open>BrandedToken: deployment\<close>

lemma js_le_not_gt: "js_le a b \<Longrightarrow> \<not> js_gt a b"
  by (simp add: js_le_def js_gt_def)

lemma js_gt_not_le: "js_gt a b \<Longrightarrow> \<not> js_le a b"
  by (simp add: js_le_def js_gt_def)

lemma deployRawTx_invalid:
  assumes "\<not> js_gt conversionRate (Fin 0) \<or> \<not> js_le conversionRateDecimals (Fin 5)"
  shows "\<exists>m. deployRawTx env web3 valueToken symbol name decimals conversionRate
            conversionRateDecimals organization tr = (Inl (TypeError m), tr @ [LoggerError m])"
  using assms by (auto simp: deployRawTx_def Let_def)

lemma deployRawTx_valid:
  assumes "instanceof_Web3 web3" "isAddress env valueToken" "isAddress env organization"
    "js_gt conversionRate (Fin 0)" "js_le conversionRateDecimals (Fin 5)"
  shows "deployRawTx env web3 valueToken symbol name decimals conversionRate
            conversionRateDecimals organization tr =
      (case getBIN env ''BrandedToken'' of
           Inl e \<Rightarrow> (Inl e, tr)
         | Inr bin \<Rightarrow>
             (case getBrandedToken env web3 Undefined of
                None \<Rightarrow> (Inl (RuntimeTypeError ''Cannot read property 'deploy' of undefined''), tr)
              | Some c \<Rightarrow>
                  (Inr (DeployTx c bin [valueToken, symbol, name, decimals, JNum conversionRate,
                          JNum conversionRateDecimals, organization]), tr)))"
  using assms by (simp add: deployRawTx_def Let_def split: sum.splits option.splits)

lemma deploy_invalid:
  assumes "\<not> js_gt conversionRate (Fin 0) \<or> \<not> js_le conversionRateDecimals (Fin 5)"
  shows "\<exists>m. fst (deploy env web3 valueToken symbol name decimals conversionRate
            conversionRateDecimals organization txOptions tr) = Inl (TypeError m)
          \<and> network (snd (deploy env web3 valueToken symbol name decimals conversionRate
            conversionRateDecimals organization txOptions tr)) = network tr"
proof -
  obtain m where "deployRawTx env web3 valueToken symbol name decimals conversionRate
            conversionRateDecimals organization tr = (Inl (TypeError m), tr @ [LoggerError m])"
    using deployRawTx_invalid [OF assms] by blast
  then show ?thesis by (simp add: deploy_def Let_def)
qed

text \<open>
  Claim C2. Whatever the other arguments are, a conversion rate \<open><= 0\<close> or a number of
  conversion decimals \<open>> 5\<close> makes \<open>deployRawTx\<close> throw a TypeError of the code's own
  making and makes \<open>deploy\<close> reject with one, with no network round trip (only a log
  line is added). With a \<open>Web3\<close> connection, well-formed value-token and organization
  addresses, a rate \<open>> 0\<close> and decimals \<open><= 5\<close>, every check of \<open>deployRawTx\<close> passes: the
  result is the deployment descriptor carrying the binary and the seven constructor
  arguments, provided the registry supplies the binary and the contract.
\<close>

theorem deploy_conversion_checks:
  "(js_le conversionRate (Fin 0) \<or> js_gt conversionRateDecimals (Fin 5) \<longrightarrow>
      (\<exists>m. deployRawTx env web3 valueToken symbol name decimals conversionRate
              conversionRateDecimals organization tr = (Inl (TypeError m), tr @ [LoggerError m]))
    \<and> (\<exists>m. fst (deploy env web3 valueToken symbol name decimals conversionRate
                  conversionRateDecimals organization txOptions tr) = Inl (TypeError m))
    \<and> network (snd (deploy env web3 valueToken symbol name decimals conversionRate
                  conversionRateDecimals organization txOptions tr)) = network tr)
   \<and> (instanceof_Web3 web3 \<and> isAddress env valueToken \<and> isAddress env organization
        \<and> js_gt conversionRate (Fin 0) \<and> js_le conversionRateDecimals (Fin 5) \<longrightarrow>
      deployRawTx env web3 valueToken symbol name decimals conversionRate
          conversionRateDecimals organization tr =
        (case getBIN env ''BrandedToken'' of
           Inl e \<Rightarrow> (Inl e, tr)
         | Inr bin \<Rightarrow>
             (case getBrandedToken env web3 Undefined of
                None \<Rightarrow> (Inl (RuntimeTypeError ''Cannot read property 'deploy' of undefined''), tr)
              | Some c \<Rightarrow>
                  (Inr (DeployTx c bin [valueToken, symbol, name, decimals, JNum conversionRate,
                          JNum conversionRateDecimals, organization]), tr))))"
proof (intro conjI impI)
  assume a: "js_le conversionRate (Fin 0) \<or> js_gt conversionRateDecimals (Fin 5)"
  then have b: "\<not> js_gt conversionRate (Fin 0) \<or> \<not> js_le conversionRateDecimals (Fin 5)"
    using js_le_not_gt js_gt_not_le by blast
  show "\<exists>m. deployRawTx env web3 valueToken symbol name decimals conversionRate
              conversionRateDecimals organization tr = (Inl (TypeError m), tr @ [LoggerError m])"
    by (rule deployRawTx_invalid [OF b])
  show "\<exists>m. fst (deploy env web3 valueToken symbol name decimals conversionRate
                  conversionRateDecimals organization txOptions tr) = Inl (TypeError m)"
    using deploy_invalid [OF b] by blast
  show "network (snd (deploy env web3 valueToken symbol name decimals conversionRate
                  conversionRateDecimals organization txOptions tr)) = network tr"
    using deploy_invalid [OF b] by blast
next
  assume "instanceof_Web3 web3 \<and> isAddress env valueToken \<and> isAddress env organization
        \<and> js_gt conversionRate (Fin 0) \<and> js_le conversionRateDecimals (Fin 5)"
  then show "deployRawTx env web3 valueToken symbol name decimals conversionRate
          conversionRateDecimals organization tr =
        (case getBIN env ''BrandedToken'' of
           Inl e \<Rightarrow> (Inl e, tr)
         | Inr bin \<Rightarrow>
             (case getBrandedToken env web3 Undefined of
                None \<Rightarrow> (Inl (RuntimeTypeError ''Cannot read property 'deploy' of undefined''), tr)
              | Some c \<Rightarrow>
                  (Inr (DeployTx c bin [valueToken, symbol, name, decimals, JNum conversionRate,
                          JNum conversionRateDecimals, organization]), tr)))"
    by (simp add: deployRawTx_valid)
qed

theorem deploy_conversion_checks_witness:
  "js_le (Fin 0) (Fin 0)
   \<and> (\<exists>m. deployRawTx example_env (JWeb3 0) example_address (JStr ''BT'') (JStr ''Branded'')
            (JNum (Fin 18)) (Fin 0) (Fin 1) example_address [] = (Inl (TypeError m), [LoggerError m]))
   \<and> js_gt (Fin 6) (Fin 5)
   \<and> (\<exists>m. fst (deploy example_env (JWeb3 0) example_address (JStr ''BT'') (JStr ''Branded'')
            (JNum (Fin 18)) (Fin 35) (Fin 6) example_address example_options [])
          = Inl (TypeError m))
   \<and> network (snd (deploy example_env (JWeb3 0) example_address (JStr ''BT'') (JStr ''Branded'')
            (JNum (Fin 18)) (Fin 35) (Fin 6) example_address example_options [])) = []
   \<and> deployRawTx example_env (JWeb3 0) example_address (JStr ''BT'') (JStr ''Branded'')
        (JNum (Fin 18)) (Fin 35) (Fin 1) example_address [] =
       (Inr (DeployTx (new_Contract (JWeb3 0) (JArr [JHost ''BrandedToken ABI'']) Undefined Undefined)
               (JStr ''0x6080'')
               [example_address, JStr ''BT'', JStr ''Branded'', JNum (Fin 18), JNum (Fin 35),
                JNum (Fin 1), example_address]), [])"
proof -
  have zero: "js_le (Fin 0) (Fin 0)" and six: "js_gt (Fin 6) (Fin 5)"
    and ok: "js_gt (Fin 35) (Fin 0)" "js_le (Fin 1) (Fin 5)"
    by (simp_all add: js_le_def js_gt_def)
  have env: "instanceof_Web3 (JWeb3 0)" "isAddress example_env example_address"
    "getBIN example_env ''BrandedToken'' = Inr (JStr ''0x6080'')"
    "getBrandedToken example_env (JWeb3 0) Undefined
       = Some (new_Contract (JWeb3 0) (JArr [JHost ''BrandedToken ABI'']) Undefined Undefined)"
    by (simp_all add: example_env_def)
  show ?thesis
    using zero six ok env
      deploy_conversion_checks [of "Fin 0" "Fin 1" example_env "JWeb3 0" example_address
        "JStr ''BT''" "JStr ''Branded''" "JNum (Fin 18)" example_address "[]" example_options]
      deploy_conversion_checks [of "Fin 35" "Fin 6" example_env "JWeb3 0" example_address
        "JStr ''BT''" "JStr ''Branded''" "JNum (Fin 18)" example_address "[]" example_options]
      deploy_conversion_checks [of "Fin 35" "Fin 1" example_env "JWeb3 0" example_address
        "JStr ''BT''" "JStr ''Branded''" "JNum (Fin 18)" example_address "[]" example_options]
    by (simp add: network_def)
qed

section \<open>BrandedToken: accepting and rejecting a stake request\<close>

lemma acceptStakeRequestRawTx_falsy:
  assumes "\<not> truthy h \<or> \<not> truthy r \<or> \<not> truthy s \<or> \<not> truthy v"
  shows "\<exists>m. acceptStakeRequestRawTx this h r s v tr = (Inl (TypeError m), tr @ [LoggerError m])"
  using assms by (auto simp: acceptStakeRequestRawTx_def Let_def)

lemma acceptStakeRequest_falsy:
  assumes "\<not> truthy h \<or> \<not> truthy r \<or> \<not> truthy s \<or> \<not> truthy v"
  shows "\<exists>m. acceptStakeRequest env this h r s v txOptions tr = (Inl (TypeError m), tr @ [LoggerError m])"
proof -
  obtain m where "acceptStakeRequestRawTx this h r s v tr = (Inl (TypeError m), tr @ [LoggerError m])"
    using acceptStakeRequestRawTx_falsy [OF assms] by blast
  then show ?thesis by (simp add: acceptStakeRequest_def Let_def)
qed

lemma acceptStakeRequest_bad_options:
  assumes "\<not> (truthy txOptions \<and> isAddress env (get_prop txOptions ''from''))"
  shows "\<exists>m. acceptStakeRequest env this h r s v txOptions tr = (Inl (TypeError m), tr @ [LoggerError m])"
  using assms by (auto simp: acceptStakeRequest_def Let_def)

lemma rejectStakeRequest_falsy:
  assumes "\<not> truthy h"
  shows "\<exists>m. fst (rejectStakeRequest env this h txOptions tr) = Inl (TypeError m)
            \<and> network (snd (rejectStakeRequest env this h txOptions tr)) = network tr"
  using assms by (auto simp: rejectStakeRequest_def rejectStakeRequestRawTx_def Let_def)

lemma rejectStakeRequest_bad_options:
  assumes "\<not> (truthy txOptions \<and> isAddress env (get_prop txOptions ''from''))"
  shows "\<exists>m. fst (rejectStakeRequest env this h txOptions tr) = Inl (TypeError m)
            \<and> network (snd (rejectStakeRequest env this h txOptions tr)) = network tr"
  using assms by (auto simp: rejectStakeRequest_def Let_def)

text \<open>
  Claim C4. If one of \<open>stakeRequestHash\<close>, \<open>r\<close>, \<open>s\<close>, \<open>v\<close> is falsy, whatever the
  other three are, \<open>acceptStakeRequestRawTx\<close> and \<open>acceptStakeRequest\<close> reject with a
  TypeError of the code's own making, and the only effect is a log line. The same
  holds of \<open>rejectStakeRequestRawTx\<close> and \<open>rejectStakeRequest\<close> when
  \<open>stakeRequestHash\<close> is falsy. Both submitting forms also reject, without a network
  round trip, when the options are falsy or their \<open>from\<close> is not a well-formed address.
  When every field is truthy and \<open>from\<close> is well formed, the accept or reject call is
  submitted. \<open>null\<close>, \<open>undefined\<close>, the empty string and \<open>0\<close> are falsy.
\<close>

theorem stake_request_decisions_validate:
  "(\<not> truthy h \<or> \<not> truthy r \<or> \<not> truthy s \<or> \<not> truthy v \<longrightarrow>
      (\<exists>m. acceptStakeRequestRawTx this h r s v tr = (Inl (TypeError m), tr @ [LoggerError m]))
    \<and> (\<exists>m. acceptStakeRequest env this h r s v txOptions tr
              = (Inl (TypeError m), tr @ [LoggerError m])))
   \<and> (\<not> truthy h \<longrightarrow>
       (\<exists>m. rejectStakeRequestRawTx this h tr = (Inl (TypeError m), tr @ [LoggerError m]))
     \<and> (\<exists>m. fst (rejectStakeRequest env this h txOptions tr) = Inl (TypeError m))
     \<and> network (snd (rejectStakeRequest env this h txOptions tr)) = network tr)
   \<and> (\<not> (truthy txOptions \<and> isAddress env (get_prop txOptions ''from'')) \<longrightarrow>
       (\<exists>m. acceptStakeRequest env this h r s v txOptions tr
              = (Inl (TypeError m), tr @ [LoggerError m]))
     \<and> (\<exists>m. fst (rejectStakeRequest env this h txOptions tr) = Inl (TypeError m))
     \<and> network (snd (rejectStakeRequest env this h txOptions tr)) = network tr)
   \<and> (truthy h \<and> truthy r \<and> truthy s \<and> truthy v \<and> truthy txOptions
        \<and> isAddress env (get_prop txOptions ''from'') \<longrightarrow>
       snd (acceptStakeRequest env this h r s v txOptions tr)
         = tr @ [Sent (MethodTx (bt_contract this) ''acceptStakeRequest'' [h, r, s, v]) txOptions]
     \<and> snd (rejectStakeRequest env this h txOptions tr)
         = tr @ [Sent (MethodTx (bt_contract this) ''rejectStakeRequest'' [h]) txOptions])
   \<and> \<not> truthy Null \<and> \<not> truthy Undefined \<and> \<not> truthy (JStr '''') \<and> \<not> truthy (JNum (Fin 0))"
proof (intro conjI impI)
  assume a: "\<not> truthy h \<or> \<not> truthy r \<or> \<not> truthy s \<or> \<not> truthy v"
  show "\<exists>m. acceptStakeRequestRawTx this h r s v tr = (Inl (TypeError m), tr @ [LoggerError m])"
    by (rule acceptStakeRequestRawTx_falsy [OF a])
  show "\<exists>m. acceptStakeRequest env this h r s v txOptions tr
              = (Inl (TypeError m), tr @ [LoggerError m])"
    by (rule acceptStakeRequest_falsy [OF a])
next
  assume a: "\<not> truthy h"
  show "\<exists>m. rejectStakeRequestRawTx this h tr = (Inl (TypeError m), tr @ [LoggerError m])"
    using a by (simp add: rejectStakeRequestRawTx_def Let_def)
  show "\<exists>m. fst (rejectStakeRequest env this h txOptions tr) = Inl (TypeError m)"
    using rejectStakeRequest_falsy [OF a] by blast
  show "network (snd (rejectStakeRequest env this h txOptions tr)) = network tr"
    using rejectStakeRequest_falsy [OF a] by blast
next
  assume a: "\<not> (truthy txOptions \<and> isAddress env (get_prop txOptions ''from''))"
  show "\<exists>m. acceptStakeRequest env this h r s v txOptions tr
              = (Inl (TypeError m), tr @ [LoggerError m])"
    by (rule acceptStakeRequest_bad_options [OF a])
  show "\<exists>m. fst (rejectStakeRequest env this h txOptions tr) = Inl (TypeError m)"
    using rejectStakeRequest_bad_options [OF a] by blast
  show "network (snd (rejectStakeRequest env this h txOptions tr)) = network tr"
    using rejectStakeRequest_bad_options [OF a] by blast
next
  assume a: "truthy h \<and> truthy r \<and> truthy s \<and> truthy v \<and> truthy txOptions
        \<and> isAddress env (get_prop txOptions ''from'')"
  show "snd (acceptStakeRequest env this h r s v txOptions tr)
         = tr @ [Sent (MethodTx (bt_contract this) ''acceptStakeRequest'' [h, r, s, v]) txOptions]"
    using a by (simp add: acceptStakeRequest_def acceptStakeRequestRawTx_def)
  show "snd (rejectStakeRequest env this h txOptions tr)
         = tr @ [Sent (MethodTx (bt_contract this) ''rejectStakeRequest'' [h]) txOptions]"
    using a by (simp add: rejectStakeRequest_def rejectStakeRequestRawTx_def)
qed simp_all

theorem stake_request_decisions_validate_witness:
  "(\<exists>m. acceptStakeRequest example_env example_token (JStr ''0xabc'') (JStr ''0x01'') (JStr [])
          (JNum (Fin 27)) example_options [] = (Inl (TypeError m), [LoggerError m]))
   \<and> (\<exists>m. fst (rejectStakeRequest example_env example_token Null example_options [])
          = Inl (TypeError m))
   \<and> (\<exists>m. acceptStakeRequest example_env example_token (JStr ''0xabc'') (JStr ''0x01'')
          (JStr ''0x02'') (JNum (Fin 27)) (JObj [(''from'', JStr ''me'')]) []
          = (Inl (TypeError m), [LoggerError m]))
   \<and> snd (acceptStakeRequest example_env example_token (JStr ''0xabc'') (JStr ''0x01'')
          (JStr ''0x02'') (JNum (Fin 27)) example_options [])
       = [Sent (MethodTx example_contract ''acceptStakeRequest''
                  [JStr ''0xabc'', JStr ''0x01'', JStr ''0x02'', JNum (Fin 27)]) example_options]"
proof -
  have bad: "\<not> isAddress example_env (get_prop (JObj [(''from'', JStr ''me'')]) ''from'')"
    by (simp add: example_env_def example_address_def lookup_def)
  have good: "truthy example_options"
    "isAddress example_env (get_prop example_options ''from'')"
    by (simp_all add: example_env_def example_options_def lookup_def)
  show ?thesis
    using bad good
      stake_request_decisions_validate [of "JStr ''0xabc''" "JStr ''0x01''" "JStr []"
        "JNum (Fin 27)" example_token "[]" example_env example_options]
      stake_request_decisions_validate [of Null "JStr ''0x01''" "JStr ''0x02''"
        "JNum (Fin 27)" example_token "[]" example_env example_options]
      stake_request_decisions_validate [of "JStr ''0xabc''" "JStr ''0x01''" "JStr ''0x02''"
        "JNum (Fin 27)" example_token "[]" example_env "JObj [(''from'', JStr ''me'')]"]
      stake_request_decisions_validate [of "JStr ''0xabc''" "JStr ''0x01''" "JStr ''0x02''"
        "JNum (Fin 27)" example_token "[]" example_env example_options]
    by (simp add: example_token_def)
qed

section \<open>BrandedToken: lifting restrictions\<close>

text \<open>
  Claim C5. \<open>liftRestriction\<close> and its raw form reject with a TypeError of the code's own
  making when the address list is missing (any falsy value) or is the empty array,
  whatever the options. For a one-element list \<open>[addr]\<close> the raw form resolves to the
  descriptor of \<open>liftRestriction\<close> whose argument list has one element, the list
  \<open>[addr]\<close> itself, and with valid options that is the descriptor submitted.
\<close>

theorem liftRestriction_list:
  "(\<not> truthy addresses \<or> addresses = JArr [] \<longrightarrow>
      (\<exists>m. liftRestrictionRawTx this addresses tr = (Inl (TypeError m), tr @ [LoggerError m]))
    \<and> (\<exists>m. liftRestriction env this addresses txOptions tr
              = (Inl (TypeError m), tr @ [LoggerError m])))
   \<and> liftRestrictionRawTx this (JArr [addr]) tr
       = (Inr (MethodTx (bt_contract this) ''liftRestriction'' [JArr [addr]]), tr)
   \<and> (truthy txOptions \<and> isAddress env (get_prop txOptions ''from'') \<longrightarrow>
       liftRestriction env this (JArr [addr]) txOptions tr
         = (sendTransaction env tr (MethodTx (bt_contract this) ''liftRestriction'' [JArr [addr]])
              txOptions,
            tr @ [Sent (MethodTx (bt_contract this) ''liftRestriction'' [JArr [addr]]) txOptions]))"
proof (intro conjI impI)
  assume a: "\<not> truthy addresses \<or> addresses = JArr []"
  then show raw: "\<exists>m. liftRestrictionRawTx this addresses tr
                    = (Inl (TypeError m), tr @ [LoggerError m])"
    by (auto simp: liftRestrictionRawTx_def Let_def)
  then obtain m where "liftRestrictionRawTx this addresses tr
                    = (Inl (TypeError m), tr @ [LoggerError m])" by blast
  then show "\<exists>m. liftRestriction env this addresses txOptions tr
              = (Inl (TypeError m), tr @ [LoggerError m])"
    by (simp add: liftRestriction_def Let_def)
next
  show one: "liftRestrictionRawTx this (JArr [addr]) tr
       = (Inr (MethodTx (bt_contract this) ''liftRestriction'' [JArr [addr]]), tr)"
    by (simp add: liftRestrictionRawTx_def)
  assume "truthy txOptions \<and> isAddress env (get_prop txOptions ''from'')"
  then show "liftRestriction env this (JArr [addr]) txOptions tr
         = (sendTransaction env tr (MethodTx (bt_contract this) ''liftRestriction'' [JArr [addr]])
              txOptions,
            tr @ [Sent (MethodTx (bt_contract this) ''liftRestriction'' [JArr [addr]]) txOptions])"
    by (simp add: liftRestriction_def one)
qed

theorem liftRestriction_list_witness:
  "(\<exists>m. liftRestriction example_env example_token (JArr []) example_options []
          = (Inl (TypeError m), [LoggerError m]))
   \<and> (\<exists>m. liftRestrictionRawTx example_token Undefined [] = (Inl (TypeError m), [LoggerError m]))
   \<and> liftRestriction example_env example_token (JArr [example_address]) example_options []
       = (Inr (JObj [(''contractAddress'', example_address)]),
          [Sent (MethodTx example_contract ''liftRestriction'' [JArr [example_address]])
             example_options])"
proof -
  have good: "truthy example_options"
    "isAddress example_env (get_prop example_options ''from'')"
    by (simp_all add: example_env_def example_options_def lookup_def)
  show ?thesis
    using good
      liftRestriction_list [of "JArr []" example_token "[]" example_env example_options
        example_address]
      liftRestriction_list [of Undefined example_token "[]" example_env example_options
        example_address]
    by (simp add: example_token_def example_env_def)
qed

section \<open>BrandedToken: raw stake request against raw redeem\<close>

text \<open>
  Claim C10. \<open>requestStakeRawTx(stakeAmount, mintAmount)\<close> checks nothing: for all
  arguments, falsy ones included, it resolves to the \<open>requestStake\<close> descriptor of
  these two arguments and adds no effect. \<open>redeemRawTx\<close>, in contrast, rejects every
  falsy amount with a TypeError and builds the \<open>redeem\<close> descriptor for a truthy one.
\<close>

theorem requestStakeRawTx_never_validates:
  "requestStakeRawTx this stakeAmount mintAmount tr
     = (Inr (MethodTx (bt_contract this) ''requestStake'' [stakeAmount, mintAmount]), tr)
   \<and> (\<not> truthy amount \<longrightarrow>
        redeemRawTx this amount tr
          = (Inl (TypeError [Lit ''Invalid redeemAmount: '', Val amount, Lit ''.'']), tr))
   \<and> (truthy amount \<longrightarrow>
        redeemRawTx this amount tr = (Inr (MethodTx (bt_contract this) ''redeem'' [amount]), tr))"
  by (simp add: requestStakeRawTx_def redeemRawTx_def)

theorem requestStakeRawTx_never_validates_witness:
  "requestStakeRawTx example_token (JNum (Fin 0)) Undefined []
     = (Inr (MethodTx example_contract ''requestStake'' [JNum (Fin 0), Undefined]), [])
   \<and> requestStakeRawTx example_token (JStr []) Null []
     = (Inr (MethodTx example_contract ''requestStake'' [JStr [], Null]), [])
   \<and> redeemRawTx example_token (JNum (Fin 0)) []
     = (Inl (TypeError [Lit ''Invalid redeemAmount: '', Val (JNum (Fin 0)), Lit ''.'']), [])
   \<and> redeemRawTx example_token (JStr ''5'') []
     = (Inr (MethodTx example_contract ''redeem'' [JStr ''5'']), [])"
  using requestStakeRawTx_never_validates [of example_token "JNum (Fin 0)" Undefined "[]"
          "JNum (Fin 0)"]
    requestStakeRawTx_never_validates [of example_token "JStr []" Null "[]" "JStr ''5''"]
  by (simp add: example_token_def)

section \<open>BrandedToken: construction\<close>

text \<open>
  Claim C7. The constructor fails with a TypeError, after logging it and before
  anything else happens, when the connection is not a \<open>Web3\<close> instance, when the
  address is not well formed, or when the registry has no contract for them. When the
  three conditions hold it returns the client holding the connection, the address and
  the contract handle, and adds no effect.
\<close>

theorem BrandedToken_constructor_fails_fast:
  "(\<not> instanceof_Web3 web3 \<or> \<not> isAddress env address
      \<or> getBrandedToken env web3 address = None \<longrightarrow>
      (\<exists>m. BrandedToken_constructor env web3 address tr
              = (Inl (TypeError m), tr @ [LoggerError m])))
   \<and> (\<forall>c. instanceof_Web3 web3 \<and> isAddress env address
          \<and> getBrandedToken env web3 address = Some c \<longrightarrow>
        BrandedToken_constructor env web3 address tr
          = (Inr \<lparr>bt_web3 = web3, bt_address = address, bt_contract = c\<rparr>, tr))"
  by (auto simp: BrandedToken_constructor_def Let_def)

theorem BrandedToken_constructor_fails_fast_witness:
  "(\<exists>m. BrandedToken_constructor example_env (JStr ''http://localhost:8545'') example_address []
          = (Inl (TypeError m), [LoggerError m]))
   \<and> (\<exists>m. BrandedToken_constructor example_env (JWeb3 0) (JStr ''0x12'') []
          = (Inl (TypeError m), [LoggerError m]))
   \<and> (\<exists>m. BrandedToken_constructor (example_env\<lparr>getBrandedToken := (\<lambda>w a. None)\<rparr>) (JWeb3 0)
            example_address [] = (Inl (TypeError m), [LoggerError m]))
   \<and> BrandedToken_constructor example_env (JWeb3 0) example_address [] = (Inr example_token, [])"
  using BrandedToken_constructor_fails_fast [of "JStr ''http://localhost:8545''" example_env
          example_address "[]"]
    BrandedToken_constructor_fails_fast [of "JWeb3 0" example_env "JStr ''0x12''" "[]"]
    BrandedToken_constructor_fails_fast [of "JWeb3 0"
          "example_env\<lparr>getBrandedToken := (\<lambda>w a. None)\<rparr>" example_address "[]"]
    BrandedToken_constructor_fails_fast [of "JWeb3 0" example_env example_address "[]"]
  by (simp add: example_env_def example_token_def example_contract_def example_address_def
        new_Contract_def)

section \<open>Staker: the options of the composer call\<close>

lemma Staker_requestStakeRawTx_built:
  assumes "provider_getABI env (get_prop this ''abiBinProvider'') ''GatewayComposer'' = Inr abi"
    and "eth_Contract (js_or originWeb3 (get_prop this ''originWeb3'')) = Inr conn"
  shows "Staker_requestStakeRawTx env this owner stake mint gateway beneficiary gasPrice gasLimit
           nonce originWeb3 txOptions tr =
         (Inr (MethodTx
                 (new_Contract conn abi (get_prop this ''gatewayComposer'')
                    (if truthy txOptions
                     then Object_assign (JObj [(''from'', owner),
                                               (''to'', get_prop this ''gatewayComposer''),
                                               (''gas'', JStr ''8000000'')]) txOptions
                     else JObj [(''from'', owner), (''to'', get_prop this ''gatewayComposer''),
                                (''gas'', JStr ''8000000'')]))
                 ''requestStake'' [stake, mint, gateway, beneficiary, gasPrice, gasLimit, nonce]),
          tr @ [ConsoleLog [Lit ''Constructed txObject for GatewayComposer.requestStake.'']])"
  using assms by (simp add: Staker_requestStakeRawTx_def Let_def)

lemma Staker_web3_unassigned:
  "get_prop (Staker_constructor ow vt bt gc txo) ''web3'' = Undefined"
  by (simp add: Staker_constructor_def lookup_JObj)

lemma Staker_provider:
  "get_prop (Staker_constructor ow vt bt gc txo) ''abiBinProvider'' = JHost ''AbiBinProvider''"
  by (simp add: Staker_constructor_def lookup_JObj)

lemma Staker_originWeb3:
  "get_prop (Staker_constructor ow vt bt gc txo) ''originWeb3'' = ow"
  by (simp add: Staker_constructor_def lookup_JObj)

lemma Staker_brandedToken:
  "get_prop (Staker_constructor ow vt bt gc txo) ''brandedToken'' = bt"
  by (simp add: Staker_constructor_def lookup_JObj)

lemma Staker_gatewayComposer:
  "get_prop (Staker_constructor ow vt bt gc txo) ''gatewayComposer'' = gc"
  by (simp add: Staker_constructor_def lookup_JObj)

text \<open>
  Claim C6, as amended. Whenever the composer ABI is found and a connection is
  available, \<open>_requestStakeRawTx\<close> returns the composer \<open>requestStake\<close> descriptor on a
  contract handle whose options \<open>opts\<close> are the caller's options merged, key by key,
  over the default \<open>{from: owner, to: composer, gas: '8000000'}\<close>: every own enumerable
  key of the caller's options carries the caller's value (also when that value is
  \<open>undefined\<close>), every other key the default's. So on the handle \<open>gas\<close> is the default,
  the decimal string \<open>'8000000'\<close>, when the caller passes no options or options without
  an own \<open>gas\<close> key, and the caller's value when there is such a key. \<open>requestStake\<close>
  submits exactly this descriptor, and the options it hands to \<open>send\<close> are the caller's
  own, unmerged; nothing else goes to the network.
\<close>

theorem composer_options_merge:
  assumes "provider_getABI env (get_prop this ''abiBinProvider'') ''GatewayComposer'' = Inr abi"
    and "eth_Contract (js_or originWeb3 (get_prop this ''originWeb3'')) = Inr conn"
  shows "\<exists>opts tx.
      tx = MethodTx \<lparr>c_web3 = conn, c_abi = abi,
                      c_address = get_prop this ''gatewayComposer'', c_options = opts\<rparr>
             ''requestStake'' [stake, mint, gateway, beneficiary, gasPrice, gasLimit, nonce]
    \<and> Staker_requestStakeRawTx env this owner stake mint gateway beneficiary gasPrice gasLimit
        nonce originWeb3 txOptions tr =
          (Inr tx, tr @ [ConsoleLog [Lit ''Constructed txObject for GatewayComposer.requestStake.'']])
    \<and> (\<exists>rest. snd (Staker_requestStake env this owner stake mint gateway gasPrice gasLimit
                     beneficiary nonce originWeb3 txOptions tr) =
                tr @ [ConsoleLog [Lit ''Constructed txObject for GatewayComposer.requestStake.''],
                      Sent tx txOptions] @ rest
              \<and> network rest = [])
    \<and> (\<forall>k. get_prop opts k =
            (if truthy txOptions \<and> has_own txOptions k then get_prop txOptions k
             else get_prop (JObj [(''from'', owner), (''to'', get_prop this ''gatewayComposer''),
                                  (''gas'', JStr ''8000000'')]) k))
    \<and> (\<not> truthy txOptions \<or> \<not> has_own txOptions ''gas'' \<longrightarrow>
          get_prop opts ''gas'' = JStr ''8000000'')
    \<and> (truthy txOptions \<and> has_own txOptions ''gas'' \<longrightarrow>
          get_prop opts ''gas'' = get_prop txOptions ''gas'')"
proof -
  let ?d = "JObj [(''from'', owner), (''to'', get_prop this ''gatewayComposer''),
                  (''gas'', JStr ''8000000'')]"
  let ?opts = "if truthy txOptions then Object_assign ?d txOptions else ?d"
  let ?tx = "MethodTx \<lparr>c_web3 = conn, c_abi = abi,
                       c_address = get_prop this ''gatewayComposer'', c_options = ?opts\<rparr>
             ''requestStake'' [stake, mint, gateway, beneficiary, gasPrice, gasLimit, nonce]"
  let ?log = "ConsoleLog [Lit ''Constructed txObject for GatewayComposer.requestStake.'']"
  have raw: "Staker_requestStakeRawTx env this owner stake mint gateway beneficiary gasPrice
        gasLimit nonce originWeb3 txOptions tr = (Inr ?tx, tr @ [?log])"
    using Staker_requestStakeRawTx_built [OF assms] by (simp add: new_Contract_def)
  have sent: "\<exists>rest. snd (Staker_requestStake env this owner stake mint gateway gasPrice gasLimit
                     beneficiary nonce originWeb3 txOptions tr) =
                tr @ [?log, Sent ?tx txOptions] @ rest \<and> network rest = []"
  proof (cases "send env (tr @ [?log]) ?tx txOptions")
    case (Inl err)
    then have "snd (Staker_requestStake env this owner stake mint gateway gasPrice gasLimit
                     beneficiary nonce originWeb3 txOptions tr) =
                tr @ [?log, Sent ?tx txOptions] @ [ConsoleLogError err]"
      by (simp add: Staker_requestStake_def raw)
    moreover have "network [ConsoleLogError err] = []" by (simp add: network_def)
    ultimately show ?thesis by blast
  next
    case (Inr receipt)
    then have "snd (Staker_requestStake env this owner stake mint gateway gasPrice gasLimit
                     beneficiary nonce originWeb3 txOptions tr) =
                tr @ [?log, Sent ?tx txOptions] @ []"
      by (simp add: Staker_requestStake_def raw)
    moreover have "network [] = []" by (simp add: network_def)
    ultimately show ?thesis by blast
  qed
  have props: "\<forall>k. get_prop ?opts k =
            (if truthy txOptions \<and> has_own txOptions k then get_prop txOptions k
             else get_prop ?d k)"
    by (simp add: get_prop_Object_assign)
  have g: "get_prop ?d ''gas'' = JStr ''8000000''"
    by (simp add: lookup_JObj)
  have none: "\<not> truthy txOptions \<or> \<not> has_own txOptions ''gas'' \<longrightarrow>
          get_prop ?opts ''gas'' = JStr ''8000000''"
    using props g by auto
  have some: "truthy txOptions \<and> has_own txOptions ''gas'' \<longrightarrow>
          get_prop ?opts ''gas'' = get_prop txOptions ''gas''"
    using props by auto
  show ?thesis
    using raw sent props none some by blast
qed

theorem composer_options_merge_witness:
  "(\<exists>opts. Staker_requestStakeRawTx example_env example_staker example_address (JStr ''100'')
             (JStr ''350'') example_address example_address (JStr ''1'') (JStr ''2'') (JStr ''0'')
             Undefined example_options [] =
           (Inr (MethodTx
                   \<lparr>c_web3 = JWeb3 0, c_abi = JArr [JHost ''GatewayComposer''],
                      c_address = example_address, c_options = opts\<rparr>
                   ''requestStake''
                   [JStr ''100'', JStr ''350'', example_address, example_address, JStr ''1'',
                    JStr ''2'', JStr ''0'']),
            [ConsoleLog [Lit ''Constructed txObject for GatewayComposer.requestStake.'']])
         \<and> get_prop opts ''gas'' = JStr ''8000000'')
   \<and> (\<exists>opts. Staker_requestStakeRawTx example_env example_staker example_address (JStr ''100'')
             (JStr ''350'') example_address example_address (JStr ''1'') (JStr ''2'') (JStr ''0'')
             Undefined (JObj [(''gas'', JStr ''5000000'')]) [] =
           (Inr (MethodTx
                   \<lparr>c_web3 = JWeb3 0, c_abi = JArr [JHost ''GatewayComposer''],
                      c_address = example_address, c_options = opts\<rparr>
                   ''requestStake''
                   [JStr ''100'', JStr ''350'', example_address, example_address, JStr ''1'',
                    JStr ''2'', JStr ''0'']),
            [ConsoleLog [Lit ''Constructed txObject for GatewayComposer.requestStake.'']])
         \<and> get_prop opts ''gas'' = JStr ''5000000'')"
proof -
  have abi: "provider_getABI example_env (get_prop example_staker ''abiBinProvider'')
               ''GatewayComposer'' = Inr (JArr [JHost ''GatewayComposer''])"
    by (simp add: example_staker_def Staker_provider provider_getABI_def example_env_def)
  have conn: "eth_Contract (js_or Undefined (get_prop example_staker ''originWeb3''))
               = Inr (JWeb3 0)"
    by (simp add: example_staker_def Staker_originWeb3 js_or_def)
  have gc: "get_prop example_staker ''gatewayComposer'' = example_address"
    by (simp add: example_staker_def Staker_gatewayComposer)
  have none: "\<not> has_own example_options ''gas''"
    by (simp add: has_own_def example_options_def)
  have some: "truthy (JObj [(''gas'', JStr ''5000000'')])"
    "has_own (JObj [(''gas'', JStr ''5000000'')]) ''gas''"
    "get_prop (JObj [(''gas'', JStr ''5000000'')]) ''gas'' = JStr ''5000000''"
    by (simp_all add: has_own_def lookup_JObj)
  from composer_options_merge [OF abi conn, where txOptions = example_options
        and owner = example_address and stake = "JStr ''100''" and mint = "JStr ''350''"
        and gateway = example_address and beneficiary = example_address
        and gasPrice = "JStr ''1''" and gasLimit = "JStr ''2''" and nonce = "JStr ''0''"
        and tr = "[]"]
  have first: "\<exists>opts. Staker_requestStakeRawTx example_env example_staker example_address
             (JStr ''100'') (JStr ''350'') example_address example_address (JStr ''1'')
             (JStr ''2'') (JStr ''0'') Undefined example_options [] =
           (Inr (MethodTx
                   \<lparr>c_web3 = JWeb3 0, c_abi = JArr [JHost ''GatewayComposer''],
                      c_address = example_address, c_options = opts\<rparr>
                   ''requestStake''
                   [JStr ''100'', JStr ''350'', example_address, example_address, JStr ''1'',
                    JStr ''2'', JStr ''0'']),
            [ConsoleLog [Lit ''Constructed txObject for GatewayComposer.requestStake.'']])
         \<and> get_prop opts ''gas'' = JStr ''8000000''"
    using none gc by auto
  from composer_options_merge [OF abi conn, where txOptions = "JObj [(''gas'', JStr ''5000000'')]"
        and owner = example_address and stake = "JStr ''100''" and mint = "JStr ''350''"
        and gateway = example_address and beneficiary = example_address
        and gasPrice = "JStr ''1''" and gasLimit = "JStr ''2''" and nonce = "JStr ''0''"
        and tr = "[]"]
  have second: "\<exists>opts. Staker_requestStakeRawTx example_env example_staker example_address
             (JStr ''100'') (JStr ''350'') example_address example_address (JStr ''1'')
             (JStr ''2'') (JStr ''0'') Undefined (JObj [(''gas'', JStr ''5000000'')]) [] =
           (Inr (MethodTx
                   \<lparr>c_web3 = JWeb3 0, c_abi = JArr [JHost ''GatewayComposer''],
                      c_address = example_address, c_options = opts\<rparr>
                   ''requestStake''
                   [JStr ''100'', JStr ''350'', example_address, example_address, JStr ''1'',
                    JStr ''2'', JStr ''0'']),
            [ConsoleLog [Lit ''Constructed txObject for GatewayComposer.requestStake.'']])
         \<and> get_prop opts ''gas'' = JStr ''5000000''"
    using some gc by auto
  from first second show ?thesis by (rule conjI)
qed

text \<open>
  The merge does not reach the options of the submission itself. A caller who passes
  \<open>{from}\<close> and no \<open>gas\<close> has exactly that object handed to \<open>send\<close>: its \<open>gas\<close> is
  \<open>undefined\<close>, not \<open>8000000\<close>, and the default sits only on the contract handle, as
  a string and not as the number. A caller who passes \<open>{from, gas: undefined}\<close>
  supplies no gas value either, yet the key overwrites the default on the handle.
\<close>

theorem composer_send_options_counterexample:
  "snd (Staker_requestStake example_env example_staker example_address (JStr ''100'')
          (JStr ''350'') example_address (JStr ''1'') (JStr ''2'') example_address (JStr ''0'')
          Undefined example_options []) =
     [ConsoleLog [Lit ''Constructed txObject for GatewayComposer.requestStake.''],
      Sent (MethodTx
              \<lparr>c_web3 = JWeb3 0, c_abi = JArr [JHost ''GatewayComposer''],
                c_address = example_address,
                c_options = JObj [(''from'', example_address), (''to'', example_address),
                                  (''gas'', JStr ''8000000'')]\<rparr>
              ''requestStake''
              [JStr ''100'', JStr ''350'', example_address, example_address, JStr ''1'',
               JStr ''2'', JStr ''0''])
        example_options]
   \<and> get_prop example_options ''gas'' = Undefined
   \<and> JStr ''8000000'' \<noteq> JNum (Fin 8000000)
   \<and> fst (Staker_requestStakeRawTx example_env example_staker example_address (JStr ''100'')
          (JStr ''350'') example_address example_address (JStr ''1'') (JStr ''2'') (JStr ''0'')
          Undefined (JObj [(''from'', example_address), (''gas'', Undefined)]) []) =
       Inr (MethodTx
              \<lparr>c_web3 = JWeb3 0, c_abi = JArr [JHost ''GatewayComposer''],
                c_address = example_address,
                c_options = JObj [(''from'', example_address), (''to'', example_address),
                                  (''gas'', Undefined)]\<rparr>
              ''requestStake''
              [JStr ''100'', JStr ''350'', example_address, example_address, JStr ''1'',
               JStr ''2'', JStr ''0''])"
  by (simp add: Staker_requestStake_def Staker_requestStakeRawTx_def example_staker_def
        Staker_constructor_def example_env_def example_options_def provider_getABI_def
        js_or_def lookup_def Object_assign_def new_Contract_def Let_def)

section \<open>Staker: the read-only lookups\<close>

text \<open>
  Claim C9. The constructor assigns no property \<open>web3\<close>, so on an instance it built
  \<open>oThis.web3\<close> is \<open>undefined\<close>. When the \<open>originWeb3\<close> argument is omitted (or is any
  falsy value) the three lookups therefore have no connection: each fails, with the
  registry's error if the ABI lookup fails and otherwise with the TypeError of reading
  \<open>eth\<close> of \<open>undefined\<close>, and none reaches the network. \<open>convertToBTToken\<close> in the same
  situation falls back to the stored \<open>originWeb3\<close> and performs its read on a contract
  bound to it.
\<close>

theorem lookups_default_to_unassigned_web3:
  "get_prop (Staker_constructor ow vt bt gc txo) ''web3'' = Undefined
   \<and> (\<not> truthy originWeb3 \<longrightarrow>
        Staker_getStakeRequestHashForStakerRawTx env (Staker_constructor ow vt bt gc txo)
               staker originWeb3 txOptions tr =
          (case getABI env ''BrandedToken'' of
             Inl e \<Rightarrow> (Inl e, tr)
           | Inr abi \<Rightarrow> (Inl (RuntimeTypeError ''Cannot read property 'eth' of undefined''), tr))
      \<and> Staker_getStakeRequestRawTx env (Staker_constructor ow vt bt gc txo)
               hash originWeb3 txOptions tr =
          (case getABI env ''BrandedToken'' of
             Inl e \<Rightarrow> (Inl e, tr)
           | Inr abi \<Rightarrow> (Inl (RuntimeTypeError ''Cannot read property 'eth' of undefined''), tr))
      \<and> Staker_getGCStakeRequestRawTx env (Staker_constructor ow vt bt gc txo)
               hash originWeb3 txOptions tr =
          (case getABI env ''GatewayComposer'' of
             Inl e \<Rightarrow> (Inl e, tr)
           | Inr abi \<Rightarrow> (Inl (RuntimeTypeError ''Cannot read property 'eth' of undefined''), tr)))
   \<and> (\<forall>abi. \<not> truthy originWeb3 \<and> instanceof_Web3 ow \<and> getABI env ''BrandedToken'' = Inr abi \<longrightarrow>
        (\<exists>tx. tx = MethodTx (new_Contract ow abi (js_or address bt) txOptions)
                     ''convertToBrandedTokens'' [amount]
            \<and> Staker_convertToBTToken env (Staker_constructor ow vt bt gc txo) amount address
                 originWeb3 txOptions tr =
               (call env (tr @ [ConsoleLog
                           [Lit ''Getting Branded tokens equivalent to Value tokens'']]) tx,
                tr @ [ConsoleLog [Lit ''Getting Branded tokens equivalent to Value tokens''],
                      Called tx])))"
proof (intro conjI impI allI)
  show "get_prop (Staker_constructor ow vt bt gc txo) ''web3'' = Undefined"
    by (rule Staker_web3_unassigned)
next
  assume a: "\<not> truthy originWeb3"
  then have e: "eth_Contract (js_or originWeb3 Undefined)
                  = Inl (RuntimeTypeError ''Cannot read property 'eth' of undefined'')"
    by (simp add: js_or_def)
  show "Staker_getStakeRequestHashForStakerRawTx env (Staker_constructor ow vt bt gc txo)
               staker originWeb3 txOptions tr =
          (case getABI env ''BrandedToken'' of
             Inl e \<Rightarrow> (Inl e, tr)
           | Inr abi \<Rightarrow> (Inl (RuntimeTypeError ''Cannot read property 'eth' of undefined''), tr))"
    using e by (simp add: Staker_getStakeRequestHashForStakerRawTx_def Staker_web3_unassigned
                  Staker_provider provider_getABI_def Let_def split: sum.splits)
  show "Staker_getStakeRequestRawTx env (Staker_constructor ow vt bt gc txo)
               hash originWeb3 txOptions tr =
          (case getABI env ''BrandedToken'' of
             Inl e \<Rightarrow> (Inl e, tr)
           | Inr abi \<Rightarrow> (Inl (RuntimeTypeError ''Cannot read property 'eth' of undefined''), tr))"
    using e by (simp add: Staker_getStakeRequestRawTx_def Staker_web3_unassigned
                  Staker_provider provider_getABI_def Let_def split: sum.splits)
  show "Staker_getGCStakeRequestRawTx env (Staker_constructor ow vt bt gc txo)
               hash originWeb3 txOptions tr =
          (case getABI env ''GatewayComposer'' of
             Inl e \<Rightarrow> (Inl e, tr)
           | Inr abi \<Rightarrow> (Inl (RuntimeTypeError ''Cannot read property 'eth' of undefined''), tr))"
    using e by (simp add: Staker_getGCStakeRequestRawTx_def Staker_web3_unassigned
                  Staker_provider provider_getABI_def Let_def split: sum.splits)
next
  fix abi
  assume a: "\<not> truthy originWeb3 \<and> instanceof_Web3 ow \<and> getABI env ''BrandedToken'' = Inr abi"
  then obtain n where n: "ow = JWeb3 n" by (cases ow) simp_all
  show "\<exists>tx. tx = MethodTx (new_Contract ow abi (js_or address bt) txOptions)
                     ''convertToBrandedTokens'' [amount]
            \<and> Staker_convertToBTToken env (Staker_constructor ow vt bt gc txo) amount address
                 originWeb3 txOptions tr =
               (call env (tr @ [ConsoleLog
                           [Lit ''Getting Branded tokens equivalent to Value tokens'']]) tx,
                tr @ [ConsoleLog [Lit ''Getting Branded tokens equivalent to Value tokens''],
                      Called tx])"
    using a n
    by (simp add: Staker_convertToBTToken_def Staker_provider Staker_originWeb3
          Staker_brandedToken provider_getABI_def js_or_def Let_def)
qed

theorem lookups_default_to_unassigned_web3_witness:
  "Staker_getStakeRequestHashForStakerRawTx example_env example_staker example_address Undefined
       Undefined [] =
     (Inl (RuntimeTypeError ''Cannot read property 'eth' of undefined''), [])
   \<and> Staker_getStakeRequestRawTx example_env example_staker (JStr ''0xabc'') Undefined
       Undefined [] =
     (Inl (RuntimeTypeError ''Cannot read property 'eth' of undefined''), [])
   \<and> Staker_getGCStakeRequestRawTx example_env example_staker (JStr ''0xabc'') Undefined
       Undefined [] =
     (Inl (RuntimeTypeError ''Cannot read property 'eth' of undefined''), [])
   \<and> Staker_convertToBTToken example_env example_staker (JStr ''10'') Undefined Undefined
       Undefined [] =
     (Inr (JStr ''35''),
      [ConsoleLog [Lit ''Getting Branded tokens equivalent to Value tokens''],
       Called (MethodTx (new_Contract (JWeb3 0) (JArr [JHost ''BrandedToken'']) example_address
                           Undefined)
                 ''convertToBrandedTokens'' [JStr ''10''])])"
  using lookups_default_to_unassigned_web3 [of "JWeb3 0" example_address example_address
          example_address example_options Undefined example_env example_address Undefined "[]"
          "JStr ''0xabc''" Undefined "JStr ''10''"]
  by (simp add: example_staker_def example_env_def js_or_def)

section \<open>Staker: the two-step stake\<close>

text \<open>
  Claim C3, which the code does not meet. \<open>stake\<close> is to issue the approval, let its
  submission complete, and only then submit the composer's \<open>requestStake\<close>. The method
  body reads \<open>oThis\<close>, which \<open>stake\<close> alone among the methods does not declare: for all
  arguments the call rejects with a ReferenceError on its first statement, and neither
  an approval nor a stake request is ever issued.
\<close>

theorem stake_reads_undeclared_oThis:
  "Staker_stake env this valueTokenAbi owner stakeVTAmountInWei mintBTAmountInWei gatewayAddress
     gasPrice gasLimit beneficiary stakerGatewayNonce tr = (Inl (ReferenceError ''oThis''), tr)"
  by (simp add: Staker_stake_def resolve_def staker_module_scope_def host_globals_def)


end
